theory Spec2Isabelle
  imports Main "HOL-Library.Sublist"
begin

section \<open>Go strings: the \<^verbatim>\<open>strings\<close> helpers the redirector calls\<close>

text \<open>
  A Go \<^verbatim>\<open>string\<close> is a byte sequence; it is modelled as \<^typ>\<open>string\<close> (a list of
  8-bit characters). Every cutset and prefix the program passes is ASCII, so the
  byte-wise reading below coincides with Go's rune-wise one.
\<close>

definition strings_TrimLeft :: "string \<Rightarrow> string \<Rightarrow> string" where
  "strings_TrimLeft s cutset = dropWhile (\<lambda>c. c \<in> set cutset) s"

definition strings_TrimRight :: "string \<Rightarrow> string \<Rightarrow> string" where
  "strings_TrimRight s cutset = rev (dropWhile (\<lambda>c. c \<in> set cutset) (rev s))"

definition strings_Trim :: "string \<Rightarrow> string \<Rightarrow> string" where
  "strings_Trim s cutset = strings_TrimLeft (strings_TrimRight s cutset) cutset"

definition strings_HasPrefix :: "string \<Rightarrow> string \<Rightarrow> bool" where
  "strings_HasPrefix s p = (take (length p) s = p)"

definition strings_TrimPrefix :: "string \<Rightarrow> string \<Rightarrow> string" where
  "strings_TrimPrefix s p = (if strings_HasPrefix s p then drop (length p) s else s)"


text \<open>
  \<^verbatim>\<open>strings.Cut\<close> at the first and at the last occurrence of a one-byte separator
  (\<^verbatim>\<open>strings.Index\<close> and \<^verbatim>\<open>strings.LastIndex\<close> with slicing, in the older library):
  the text before it and the text after it. When the separator does not occur,
  \<open>cut_before\<close> is the whole string and \<open>cut_after\<close> is empty, as
  \<^verbatim>\<open>strings.Cut\<close> has it.
\<close>

definition strings_HasSuffix :: "string \<Rightarrow> string \<Rightarrow> bool" where
  "strings_HasSuffix s p = (length p \<le> length s \<and> drop (length s - length p) s = p)"

definition cut_before :: "char \<Rightarrow> string \<Rightarrow> string" where
  "cut_before sep s = takeWhile (\<lambda>c. c \<noteq> sep) s"

definition cut_after :: "char \<Rightarrow> string \<Rightarrow> string" where
  "cut_after sep s = drop 1 (dropWhile (\<lambda>c. c \<noteq> sep) s)"

definition cut_last_before :: "char \<Rightarrow> string \<Rightarrow> string" where
  "cut_last_before sep s = rev (cut_after sep (rev s))"

definition cut_last_after :: "char \<Rightarrow> string \<Rightarrow> string" where
  "cut_last_after sep s = rev (cut_before sep (rev s))"

definition isDigit :: "char \<Rightarrow> bool" where
  "isDigit c = (48 \<le> (of_char c :: nat) \<and> (of_char c :: nat) \<le> 57)"

definition isLower :: "char \<Rightarrow> bool" where
  "isLower c = (97 \<le> (of_char c :: nat) \<and> (of_char c :: nat) \<le> 122)"

definition isUpper :: "char \<Rightarrow> bool" where
  "isUpper c = (65 \<le> (of_char c :: nat) \<and> (of_char c :: nat) \<le> 90)"

definition toLower :: "char \<Rightarrow> char" where
  "toLower c =
     (case map_of (zip ''ABCDEFGHIJKLMNOPQRSTUVWXYZ'' ''abcdefghijklmnopqrstuvwxyz'') c of
        None \<Rightarrow> c | Some l \<Rightarrow> l)"

definition strings_ToLower :: "string \<Rightarrow> string" where
  "strings_ToLower s = map toLower s"

definition byte_of :: "nat \<Rightarrow> char" where
  "byte_of n = Char (odd n) (odd (n div 2)) (odd (n div 4)) (odd (n div 8))
     (odd (n div 16)) (odd (n div 32)) (odd (n div 64)) (odd (n div 128))"


section \<open>Go strconv: \<^verbatim>\<open>Atoi\<close> and decimal formatting\<close>

text \<open>
  \<^verbatim>\<open>strconv.Atoi(s)\<close> is \<^verbatim>\<open>ParseInt(s, 10, 0)\<close> with \<^verbatim>\<open>int\<close> of 64 bits: an optional
  sign, then \<^verbatim>\<open>ParseUint\<close>'s loop over decimal digits, which reports a syntax error at
  the first byte that is not a digit and a range error as soon as the value leaves
  64 bits; then the range check of the signed result.
\<close>

datatype NumError = ErrSyntax | ErrRange

definition digit_val :: "char \<Rightarrow> nat" where
  "digit_val c = of_char c - 48"

fun ParseUint_loop :: "nat \<Rightarrow> string \<Rightarrow> NumError + nat" where
  "ParseUint_loop n [] = Inr n"
| "ParseUint_loop n (c # cs) =
     (if \<not> isDigit c then Inl ErrSyntax
      else if 2 ^ 64 \<le> n * 10 + digit_val c then Inl ErrRange
      else ParseUint_loop (n * 10 + digit_val c) cs)"

definition ParseUint :: "string \<Rightarrow> NumError + nat" where
  "ParseUint s = (if s = [] then Inl ErrSyntax else ParseUint_loop 0 s)"

definition Atoi :: "string \<Rightarrow> NumError + int" where
  "Atoi s =
     (if s = [] then Inl ErrSyntax
      else
        let neg = (hd s = CHR ''-'');
            body = (if hd s = CHR ''+'' \<or> hd s = CHR ''-'' then tl s else s)
        in case ParseUint body of
             Inl e \<Rightarrow> Inl e
           | Inr un \<Rightarrow>
               if \<not> neg \<and> 2 ^ 63 \<le> un then Inl ErrRange
               else if neg \<and> 2 ^ 63 < un then Inl ErrRange
               else Inr (if neg then - int un else int un))"






section \<open>go-shellquote: \<^verbatim>\<open>Split\<close>\<close>

text \<open>
  \<^verbatim>\<open>shellquote.Split\<close> skips blanks between words and reads each word with
  \<^verbatim>\<open>splitWord\<close>, whose labels \<^verbatim>\<open>raw\<close>, \<^verbatim>\<open>single\<close> and \<^verbatim>\<open>double\<close> are the three
  functions below (the label \<^verbatim>\<open>escape\<close> is inlined in \<open>splitWord_raw\<close>). The buffer
  \<open>buf\<close> is the word read so far. Every special byte is ASCII, so reading bytes
  gives the words that reading runes gives.
\<close>

datatype split_error =
  UnterminatedSingleQuoteError | UnterminatedDoubleQuoteError | UnterminatedEscapeError

definition splitChars :: string where
  "splitChars = [CHR '' '', CHR 0x0A, CHR 0x09]"

definition singleChar :: char where "singleChar = CHR 0x27"
definition doubleChar :: char where "doubleChar = CHR 0x22"
definition escapeChar :: char where "escapeChar = CHR 0x5C"

definition doubleEscapeChars :: string where
  "doubleEscapeChars = [CHR ''$'', CHR 0x60, CHR 0x22, CHR 0x0A, CHR 0x5C]"

fun splitWord_raw :: "string \<Rightarrow> string \<Rightarrow> split_error + string \<times> string"
  and splitWord_single :: "string \<Rightarrow> string \<Rightarrow> split_error + string \<times> string"
  and splitWord_double :: "string \<Rightarrow> string \<Rightarrow> split_error + string \<times> string"
where
  "splitWord_raw buf [] = Inr (buf, [])"
| "splitWord_raw buf (c # cur) =
     (if c = singleChar then splitWord_single buf cur
      else if c = doubleChar then splitWord_double buf cur
      else if c = escapeChar then
        (case cur of
           [] \<Rightarrow> Inl UnterminatedEscapeError
         | c2 # rest \<Rightarrow>
             if c2 = CHR 0x0A then splitWord_raw buf rest
             else splitWord_raw (buf @ [c2]) rest)
      else if c \<in> set splitChars then Inr (buf, cur)
      else splitWord_raw (buf @ [c]) cur)"
| "splitWord_single buf [] = Inl UnterminatedSingleQuoteError"
| "splitWord_single buf (c # cur) =
     (if c = singleChar then splitWord_raw buf cur
      else splitWord_single (buf @ [c]) cur)"
| "splitWord_double buf [] = Inl UnterminatedDoubleQuoteError"
| "splitWord_double buf (c # cur) =
     (if c = doubleChar then splitWord_raw buf cur
      else if c = escapeChar then
        (case cur of
           [] \<Rightarrow> Inl UnterminatedDoubleQuoteError
         | c2 # rest \<Rightarrow>
             if c2 \<in> set doubleEscapeChars then
               (if c2 = CHR 0x0A then splitWord_double buf rest
                else splitWord_double (buf @ [c2]) rest)
             else splitWord_double (buf @ [c, c2]) rest)
      else splitWord_double (buf @ [c]) cur)"

lemma splitWord_remainder:
  "splitWord_raw buf inp = Inr (w, r) \<Longrightarrow> length r \<le> length inp"
  "splitWord_single buf inp = Inr (w, r) \<Longrightarrow> length r \<le> length inp"
  "splitWord_double buf inp = Inr (w, r) \<Longrightarrow> length r \<le> length inp"
proof (induction buf inp and buf inp and buf inp
    rule: splitWord_raw_splitWord_single_splitWord_double.induct)
  case (1 buf)
  then show ?case by simp
next
  case (2 buf c cur)
  then show ?case
    by (cases cur) (auto split: if_splits simp: le_Suc_eq)
next
  case (3 buf)
  then show ?case by simp
next
  case (4 buf c cur)
  then show ?case by (auto split: if_splits simp: le_Suc_eq)
next
  case (5 buf)
  then show ?case by simp
next
  case (6 buf c cur)
  then show ?case
    by (cases cur) (auto split: if_splits simp: le_Suc_eq)
qed

lemma splitWord_raw_shorter:
  assumes "splitWord_raw buf (c # cur) = Inr (w, r)"
  shows "length r < Suc (length cur)"
proof (cases cur)
  case Nil
  then show ?thesis using assms by (auto split: if_splits)
next
  case (Cons c2 rest)
  have "length r \<le> length cur"
    using assms Cons splitWord_remainder [of _ cur w r] splitWord_remainder [of _ rest w r]
    by (auto split: if_splits simp: le_Suc_eq)
  then show ?thesis by simp
qed

function Split_loop :: "string list \<Rightarrow> string \<Rightarrow> split_error + string list" where
  "Split_loop words [] = Inr words"
| "Split_loop words (c # rest) =
     (if c \<in> set splitChars then Split_loop words rest
      else if c = escapeChar \<and> rest = [] then Inl UnterminatedEscapeError
      else if c = escapeChar \<and> hd rest = CHR 0x0A then Split_loop words (tl rest)
      else
        (case splitWord_raw [] (c # rest) of
           Inl e \<Rightarrow> Inl e
         | Inr (word, remainder) \<Rightarrow> Split_loop (words @ [word]) remainder))"
  by pat_completeness auto
termination
proof (relation "measure (\<lambda>(words, input). length input)")
  show "wf (measure (\<lambda>(words, input). length input))" by simp
next
  fix words :: "string list" and c :: char and rest :: string
  show "((words, rest), words, c # rest) \<in> measure (\<lambda>(words, input). length input)"
    by simp
next
  fix words :: "string list" and c :: char and rest :: string
  assume "\<not> (c = escapeChar \<and> rest = [])"
    and "c = escapeChar \<and> hd rest = CHR 0x0A"
  then show "((words, tl rest), words, c # rest) \<in> measure (\<lambda>(words, input). length input)"
    by simp
next
  fix words :: "string list" and c :: char and rest :: string
    and x2 :: "string \<times> string" and word remainder :: string
  assume "splitWord_raw [] (c # rest) = Inr x2" and "(word, remainder) = x2"
  then have "splitWord_raw [] (c # rest) = Inr (word, remainder)" by simp
  then have "length remainder < Suc (length rest)" by (rule splitWord_raw_shorter)
  then show "((words @ [word], remainder), words, c # rest)
      \<in> measure (\<lambda>(words, input). length input)"
    by simp
qed

definition shellquote_Split :: "string \<Rightarrow> split_error + string list" where
  "shellquote_Split input = Split_loop [] input"

lemmas split_chars = splitChars_def singleChar_def doubleChar_def escapeChar_def doubleEscapeChars_def


section \<open>Go net/url: \<^verbatim>\<open>Parse\<close> and \<^verbatim>\<open>String\<close>\<close>

text \<open>
  The parser and printer of \<^verbatim>\<open>net/url\<close> (Go 1.19 and later), function by function.
  Not modelled: the zone identifier of an IP literal (\<^verbatim>\<open>%25\<close> inside brackets is
  unescaped like the rest of the host). The encoding modes are those \<^verbatim>\<open>Parse\<close> and
  \<^verbatim>\<open>String\<close> use.
\<close>

datatype encoding = encodePath | encodeHost | encodeUserPassword | encodeFragment

definition shouldEscape :: "char \<Rightarrow> encoding \<Rightarrow> bool" where
  "shouldEscape c mode =
     (if isLower c \<or> isUpper c \<or> isDigit c then False
      else if mode = encodeHost
          \<and> c \<in> set (''!$&()*+,;=:[]<>'' @ [CHR 0x27, CHR 0x22]) then False
      else if c \<in> set ''-_.~'' then False
      else if c \<in> set ''$&+,/:;=?@'' then
        (case mode of
           encodePath \<Rightarrow> c = CHR ''?''
         | encodeUserPassword \<Rightarrow> c \<in> set ''@/?:''
         | encodeFragment \<Rightarrow> False
         | encodeHost \<Rightarrow> True)
      else if mode = encodeFragment \<and> c \<in> set ''!()*'' then False
      else True)"

definition upperhex :: "nat \<Rightarrow> char" where
  "upperhex n = ''0123456789ABCDEF'' ! n"

definition escape :: "string \<Rightarrow> encoding \<Rightarrow> string" where
  "escape s mode =
     concat (map (\<lambda>c. if shouldEscape c mode
                       then [CHR ''%'', upperhex (of_char c div 16), upperhex (of_char c mod 16)]
                       else [c]) s)"

definition ishex :: "char \<Rightarrow> bool" where
  "ishex c = (isDigit c \<or> c \<in> set ''abcdef'' \<or> c \<in> set ''ABCDEF'')"

definition unhex :: "char \<Rightarrow> nat" where
  "unhex c =
     (if isDigit c then of_char c - 48
      else if c \<in> set ''abcdef'' then of_char c - 97 + 10
      else if c \<in> set ''ABCDEF'' then of_char c - 65 + 10
      else 0)"

datatype url_error =
  EscapeError string
| InvalidHostError string
| InvalidControlCharacter
| MissingProtocolScheme
| FirstPathSegmentColon
| MissingBracket
| InvalidPort string
| InvalidUserinfo

fun unescape :: "string \<Rightarrow> encoding \<Rightarrow> url_error + string" where
  "unescape [] mode = Inr []"
| "unescape (c # s) mode =
     (if c = CHR ''%'' then
        (case s of
           h1 # h2 # rest \<Rightarrow>
             if \<not> ishex h1 \<or> \<not> ishex h2 then Inl (EscapeError [c, h1, h2])
             else if mode = encodeHost \<and> unhex h1 < 8 \<and> [c, h1, h2] \<noteq> ''%25''
               then Inl (EscapeError [c, h1, h2])
             else (case unescape rest mode of
                     Inl e \<Rightarrow> Inl e
                   | Inr t \<Rightarrow> Inr (byte_of (16 * unhex h1 + unhex h2) # t))
         | _ \<Rightarrow> Inl (EscapeError (c # s)))
      else if mode = encodeHost \<and> c \<noteq> CHR ''+'' \<and> (of_char c :: nat) < 128
          \<and> shouldEscape c encodeHost
        then Inl (InvalidHostError [c])
      else (case unescape s mode of Inl e \<Rightarrow> Inl e | Inr t \<Rightarrow> Inr (c # t)))"

definition validEncoded :: "string \<Rightarrow> encoding \<Rightarrow> bool" where
  "validEncoded s mode =
     list_all (\<lambda>c. c \<in> set (''!$&()*+,;=:@[]%'' @ [CHR 0x27]) \<or> \<not> shouldEscape c mode) s"

datatype Userinfo = Userinfo (username: string) (password: "string option")

record URL =
  Scheme :: string
  Opaque :: string
  User :: "Userinfo option"
  Host :: string
  Path :: string
  RawPath :: string
  OmitHost :: bool
  ForceQuery :: bool
  RawQuery :: string
  Fragment :: string
  RawFragment :: string

definition new_URL :: URL where
  "new_URL = \<lparr>Scheme = '''', Opaque = '''', User = None, Host = '''', Path = '''',
     RawPath = '''', OmitHost = False, ForceQuery = False, RawQuery = '''',
     Fragment = '''', RawFragment = ''''\<rparr>"

definition setPath :: "URL \<Rightarrow> string \<Rightarrow> url_error + URL" where
  "setPath u p =
     (case unescape p encodePath of
        Inl e \<Rightarrow> Inl e
      | Inr path \<Rightarrow>
          Inr (u\<lparr>Path := path,
                 RawPath := (if p = escape path encodePath then '''' else p)\<rparr>))"

definition setFragment :: "URL \<Rightarrow> string \<Rightarrow> url_error + URL" where
  "setFragment u f =
     (case unescape f encodeFragment of
        Inl e \<Rightarrow> Inl e
      | Inr frag \<Rightarrow>
          Inr (u\<lparr>Fragment := frag,
                 RawFragment := (if f = escape frag encodeFragment then '''' else f)\<rparr>))"

definition EscapedPath :: "URL \<Rightarrow> string" where
  "EscapedPath u =
     (if RawPath u \<noteq> '''' \<and> validEncoded (RawPath u) encodePath
         \<and> unescape (RawPath u) encodePath = Inr (Path u) then RawPath u
      else if Path u = ''*'' then ''*''
      else escape (Path u) encodePath)"

definition EscapedFragment :: "URL \<Rightarrow> string" where
  "EscapedFragment u =
     (if RawFragment u \<noteq> '''' \<and> validEncoded (RawFragment u) encodeFragment
         \<and> unescape (RawFragment u) encodeFragment = Inr (Fragment u) then RawFragment u
      else escape (Fragment u) encodeFragment)"

fun getScheme_scan :: "string \<Rightarrow> string \<Rightarrow> string \<Rightarrow> url_error + string \<times> string" where
  "getScheme_scan rawURL pre [] = Inr ('''', rawURL)"
| "getScheme_scan rawURL pre (c # cs) =
     (if isLower c \<or> isUpper c then getScheme_scan rawURL (pre @ [c]) cs
      else if isDigit c \<or> c \<in> set ''+-.'' then
        (if pre = [] then Inr ('''', rawURL) else getScheme_scan rawURL (pre @ [c]) cs)
      else if c = CHR '':'' then
        (if pre = [] then Inl MissingProtocolScheme else Inr (pre, cs))
      else Inr ('''', rawURL))"

definition getScheme :: "string \<Rightarrow> url_error + string \<times> string" where
  "getScheme rawURL = getScheme_scan rawURL [] rawURL"

definition validOptionalPort :: "string \<Rightarrow> bool" where
  "validOptionalPort port =
     (case port of [] \<Rightarrow> True | c # ds \<Rightarrow> c = CHR '':'' \<and> list_all isDigit ds)"

definition parseHost :: "string \<Rightarrow> url_error + string" where
  "parseHost host =
     (if strings_HasPrefix host ''['' then
        (if CHR '']'' \<notin> set host then Inl MissingBracket
         else if \<not> validOptionalPort (cut_last_after (CHR '']'') host)
           then Inl (InvalidPort (cut_last_after (CHR '']'') host))
         else unescape host encodeHost)
      else if CHR '':'' \<in> set host
          \<and> \<not> validOptionalPort (CHR '':'' # cut_last_after (CHR '':'') host)
        then Inl (InvalidPort (CHR '':'' # cut_last_after (CHR '':'') host))
      else unescape host encodeHost)"

definition validUserinfo :: "string \<Rightarrow> bool" where
  "validUserinfo s =
     list_all (\<lambda>c. isLower c \<or> isUpper c \<or> isDigit c
                 \<or> c \<in> set (''-._:~!$&()*+,;=%@'' @ [CHR 0x27])) s"

definition parseUserinfo :: "string \<Rightarrow> url_error + Userinfo" where
  "parseUserinfo userinfo =
     (if \<not> validUserinfo userinfo then Inl InvalidUserinfo
      else if CHR '':'' \<notin> set userinfo then
        (case unescape userinfo encodeUserPassword of
           Inl e \<Rightarrow> Inl e
         | Inr name \<Rightarrow> Inr (Userinfo name None))
      else
        (case unescape (cut_before (CHR '':'') userinfo) encodeUserPassword of
           Inl e \<Rightarrow> Inl e
         | Inr name \<Rightarrow>
             (case unescape (cut_after (CHR '':'') userinfo) encodeUserPassword of
                Inl e \<Rightarrow> Inl e
              | Inr pw \<Rightarrow> Inr (Userinfo name (Some pw)))))"

definition parseAuthority :: "string \<Rightarrow> url_error + Userinfo option \<times> string" where
  "parseAuthority authority =
     (if CHR ''@'' \<notin> set authority then
        (case parseHost authority of Inl e \<Rightarrow> Inl e | Inr host \<Rightarrow> Inr (None, host))
      else
        (case parseHost (cut_last_after (CHR ''@'') authority) of
           Inl e \<Rightarrow> Inl e
         | Inr host \<Rightarrow>
             (case parseUserinfo (cut_last_before (CHR ''@'') authority) of
                Inl e \<Rightarrow> Inl e
              | Inr user \<Rightarrow> Inr (Some user, host))))"

definition stringContainsCTLByte :: "string \<Rightarrow> bool" where
  "stringContainsCTLByte s =
     list_ex (\<lambda>c. (of_char c :: nat) < 32 \<or> (of_char c :: nat) = 127) s"

definition url_parse :: "string \<Rightarrow> url_error + URL" where
  "url_parse rawURL =
     (if stringContainsCTLByte rawURL then Inl InvalidControlCharacter
      else if rawURL = ''*'' then Inr (new_URL\<lparr>Path := ''*''\<rparr>)
      else
        (case getScheme rawURL of
           Inl e \<Rightarrow> Inl e
         | Inr (scheme, rest0) \<Rightarrow>
             let url0 = new_URL\<lparr>Scheme := strings_ToLower scheme\<rparr>;
                 force = (strings_HasSuffix rest0 ''?''
                          \<and> length (filter (\<lambda>c. c = CHR ''?'') rest0) = 1);
                 rest = (if force then butlast rest0 else cut_before (CHR ''?'') rest0);
                 url = (if force then url0\<lparr>ForceQuery := True\<rparr>
                        else url0\<lparr>RawQuery := cut_after (CHR ''?'') rest0\<rparr>)
             in if \<not> strings_HasPrefix rest ''/'' \<and> Scheme url \<noteq> ''''
                  then Inr (url\<lparr>Opaque := rest\<rparr>)
                else if \<not> strings_HasPrefix rest ''/''
                    \<and> CHR '':'' \<in> set (cut_before (CHR ''/'') rest)
                  then Inl FirstPathSegmentColon
                else if (Scheme url \<noteq> '''' \<or> \<not> strings_HasPrefix rest ''///'')
                    \<and> strings_HasPrefix rest ''//''
                  then
                    (case parseAuthority (cut_before (CHR ''/'') (drop 2 rest)) of
                       Inl e \<Rightarrow> Inl e
                     | Inr (user, host) \<Rightarrow>
                         setPath (url\<lparr>User := user, Host := host\<rparr>)
                           (dropWhile (\<lambda>c. c \<noteq> CHR ''/'') (drop 2 rest)))
                else if Scheme url \<noteq> '''' \<and> strings_HasPrefix rest ''/''
                  then setPath (url\<lparr>OmitHost := True\<rparr>) rest
                else setPath url rest))"

definition url_Parse :: "string \<Rightarrow> url_error + URL" where
  "url_Parse rawURL =
     (case url_parse (cut_before (CHR ''#'') rawURL) of
        Inl e \<Rightarrow> Inl e
      | Inr url \<Rightarrow>
          if cut_after (CHR ''#'') rawURL = '''' then Inr url
          else setFragment url (cut_after (CHR ''#'') rawURL))"

definition Userinfo_String :: "Userinfo \<Rightarrow> string" where
  "Userinfo_String ui =
     escape (username ui) encodeUserPassword
       @ (case password ui of None \<Rightarrow> '''' | Some pw \<Rightarrow> '':'' @ escape pw encodeUserPassword)"

definition URL_String :: "URL \<Rightarrow> string" where
  "URL_String u =
     (let buf0 = (if Scheme u \<noteq> '''' then Scheme u @ '':'' else '''');
          buf1 =
            (if Opaque u \<noteq> '''' then buf0 @ Opaque u
             else
               let buf2 =
                     (if Scheme u \<noteq> '''' \<or> Host u \<noteq> '''' \<or> User u \<noteq> None then
                        (if OmitHost u \<and> Host u = '''' \<and> User u = None then buf0
                         else
                           buf0
                           @ (if Host u \<noteq> '''' \<or> Path u \<noteq> '''' \<or> User u \<noteq> None
                              then ''//'' else '''')
                           @ (case User u of None \<Rightarrow> ''''
                              | Some ui \<Rightarrow> Userinfo_String ui @ ''@'')
                           @ (if Host u \<noteq> '''' then escape (Host u) encodeHost else ''''))
                      else buf0);
                   path = EscapedPath u;
                   buf3 = (if path \<noteq> '''' \<and> hd path \<noteq> CHR ''/'' \<and> Host u \<noteq> ''''
                           then buf2 @ ''/'' else buf2);
                   buf4 = (if buf3 = '''' \<and> CHR '':'' \<in> set (cut_before (CHR ''/'') path)
                           then buf3 @ ''./'' else buf3)
               in buf4 @ path);
          buf5 = (if ForceQuery u \<or> RawQuery u \<noteq> '''' then buf1 @ ''?'' @ RawQuery u
                  else buf1)
      in if Fragment u \<noteq> '''' then buf5 @ ''#'' @ EscapedFragment u else buf5)"

lemmas url_defs =
  url_Parse_def url_parse_def getScheme_def parseAuthority_def parseHost_def
  parseUserinfo_def validUserinfo_def validOptionalPort_def stringContainsCTLByte_def
  setPath_def setFragment_def EscapedPath_def EscapedFragment_def URL_String_def
  Userinfo_String_def escape_def shouldEscape_def validEncoded_def upperhex_def
  ishex_def unhex_def byte_of_def isDigit_def isLower_def isUpper_def toLower_def
  strings_ToLower_def strings_HasPrefix_def strings_HasSuffix_def
  cut_before_def cut_after_def cut_last_before_def cut_last_after_def new_URL_def


section \<open>Go path: \<^verbatim>\<open>Clean\<close>, \<^verbatim>\<open>Join\<close>, \<^verbatim>\<open>Split\<close>\<close>









section \<open>The request, and the lookup key of the dispatcher\<close>

text \<open>
  The fields of \<^verbatim>\<open>*http.Request\<close> the program reads: \<^verbatim>\<open>req.Host\<close>,
  \<^verbatim>\<open>req.URL.Path\<close>, \<^verbatim>\<open>req.URL.RawQuery\<close> and \<^verbatim>\<open>req.Method\<close>.
\<close>

record Request =
  req_Host :: string
  req_Path :: string
  req_RawQuery :: string
  req_Method :: string

text \<open>
  \<^verbatim>\<open>requestToRoutePattern\<close>:
  \<^verbatim>\<open>return r.Host + "/" + strings.Trim(r.URL.Path, "/")\<close>.
  The older single-file program computes the same key inline in \<^verbatim>\<open>handle\<close>.
\<close>

definition requestToRoutePattern :: "Request \<Rightarrow> string" where
  "requestToRoutePattern r = req_Host r @ ''/'' @ strings_Trim (req_Path r) ''/''"


section \<open>net/http: \<^verbatim>\<open>Redirect\<close> and \<^verbatim>\<open>Error\<close>\<close>








section \<open>Wrap mode: mirroring the exit of the wrapped command\<close>

text \<open>
  How the wrapped command ended, as \<^verbatim>\<open>os.ProcessState\<close> records it: it exited with a
  status, or a signal terminated it. \<^verbatim>\<open>ExitCode()\<close> is the status of an exited
  process and \<^verbatim>\<open>-1\<close> for one a signal terminated.
\<close>

datatype ProcessState = Exited int | Signaled nat

fun ExitCode :: "ProcessState \<Rightarrow> int" where
  "ExitCode (Exited c) = c"
| "ExitCode (Signaled sig) = - 1"

text \<open>
  The error of \<^verbatim>\<open>cmd.Run()\<close>: \<^verbatim>\<open>nil\<close> is \<^term>\<open>None\<close>; an \<^verbatim>\<open>*exec.ExitError\<close>
  carries the process state; every other error (the command was not found, the fork
  failed) is \<^verbatim>\<open>OtherError\<close>.
\<close>

datatype run_error = ExitError ProcessState | OtherError string

text \<open>
  What happened to the child, and the error \<^verbatim>\<open>cmd.Run()\<close> returns for it: \<^verbatim>\<open>nil\<close>
  exactly when the command ran and exited with status 0, an \<^verbatim>\<open>*exec.ExitError\<close> when
  it started and did not complete successfully, another error when it did not start.
\<close>

datatype child_outcome = StartFailed string | Terminated ProcessState

fun cmd_Run :: "child_outcome \<Rightarrow> run_error option" where
  "cmd_Run (StartFailed msg) = Some (OtherError msg)"
| "cmd_Run (Terminated st) = (if st = Exited 0 then None else Some (ExitError st))"

text \<open>
  The tail of the goroutine that \<^verbatim>\<open>main\<close> starts in wrap mode, from the return of
  \<^verbatim>\<open>wc.Run\<close> on: the argument it hands to \<^verbatim>\<open>os.Exit\<close>.
  \<^verbatim>\<open>
  if err == nil { os.Exit(0) }
  exitCode := 1
  var exErr *exec.ExitError
  if errors.As(err, &exErr) { exitCode = exErr.ExitCode() }
  os.Exit(exitCode)
  \<close>
\<close>

definition wrap_exit :: "run_error option \<Rightarrow> int" where
  "wrap_exit err =
     (case err of
        None \<Rightarrow> 0
      | Some e \<Rightarrow>
          (let exitCode = 1
           in case e of ExitError st \<Rightarrow> ExitCode st | OtherError msg \<Rightarrow> exitCode))"

definition service_exit :: "child_outcome \<Rightarrow> int" where
  "service_exit out = wrap_exit (cmd_Run out)"

text \<open>A child that ended without an exit status of its own.\<close>

fun no_exit_code :: "child_outcome \<Rightarrow> bool" where
  "no_exit_code (StartFailed msg) = True"
| "no_exit_code (Terminated (Exited c)) = False"
| "no_exit_code (Terminated (Signaled sig)) = True"


section \<open>The pattern matcher\<close>







section \<open>Package redirector\<close>

text \<open>
  The \<^verbatim>\<open>url.URL\<close> objects live in a heap, a list indexed by address; a \<^verbatim>\<open>*url.URL\<close> is
  an address. \<^verbatim>\<open>url.Parse\<close> allocates the object it returns.
\<close>

type_synonym heap = "URL list"

record Route =
  Pattern :: string
  Destination :: nat
  Code :: int
  CarryPath :: bool
  CarryQuery :: bool





datatype route_error =
  SplitError split_error
| MissingFields
| ParsingDestination string url_error
| ParsingCode NumError

text \<open>The loop of \<^verbatim>\<open>NewRoute\<close> over \<^verbatim>\<open>parts[2:]\<close>.\<close>

fun NewRoute_flags :: "Route \<Rightarrow> string list \<Rightarrow> route_error + Route" where
  "NewRoute_flags r [] = Inr r"
| "NewRoute_flags r (part # parts) =
     (if part = ''path'' then NewRoute_flags (r\<lparr>CarryPath := True\<rparr>) parts
      else if part = ''query'' then NewRoute_flags (r\<lparr>CarryQuery := True\<rparr>) parts
      else if strings_HasPrefix part ''code='' then
        (case Atoi (strings_TrimPrefix part ''code='') of
           Inl err \<Rightarrow> Inl (ParsingCode err)
         | Inr code \<Rightarrow> NewRoute_flags (r\<lparr>Code := code\<rparr>) parts)
      else NewRoute_flags r parts)"

text \<open>
  \<^verbatim>\<open>NewRoute\<close> (and \<^verbatim>\<open>parseRoute\<close> of the older program, which is the same code). The
  result is the route or the error, and the heap with the destination allocated.
\<close>

definition NewRoute :: "heap \<Rightarrow> string \<Rightarrow> (route_error + Route) \<times> heap" where
  "NewRoute h s =
     (case shellquote_Split s of
        Inl err \<Rightarrow> (Inl (SplitError err), h)
      | Inr parts \<Rightarrow>
          if length parts < 2 then (Inl MissingFields, h)
          else
            let dest = parts ! 1 in
            (case url_Parse dest of
               Inl err \<Rightarrow> (Inl (ParsingDestination dest err), h)
             | Inr u0 \<Rightarrow>
                 let u1 = (if Scheme u0 = '''' then u0\<lparr>Scheme := ''https''\<rparr> else u0);
                     u2 = (if Host u1 = '''' then u1\<lparr>Host := Path u1, Path := ''''\<rparr> else u1);
                     r = \<lparr>Pattern = parts ! 0, Destination = length h, Code = 302,
                          CarryPath = False, CarryQuery = False\<rparr>
                 in (NewRoute_flags r (drop 2 parts), h @ [u2])))"








section \<open>The command: \<^verbatim>\<open>main\<close>\<close>














section \<open>Properties\<close>

subsection \<open>Decimal formatting and \<^verbatim>\<open>Atoi\<close>\<close>








subsection \<open>The lookup key\<close>

lemma dropWhile_eq_replicate:
  "\<exists>i. xs = replicate i c @ dropWhile (\<lambda>x. x \<in> set [c]) xs"
proof (induction xs)
  case Nil
  show ?case by simp
next
  case (Cons x xs)
  then obtain i where i: "xs = replicate i c @ dropWhile (\<lambda>x. x \<in> set [c]) xs" ..
  show ?case
  proof (cases "x = c")
    case True
    have "x # xs = replicate (Suc i) c @ dropWhile (\<lambda>x. x \<in> set [c]) (x # xs)"
      using i True by simp
    then show ?thesis ..
  next
    case False
    have "x # xs = replicate 0 c @ dropWhile (\<lambda>x. x \<in> set [c]) (x # xs)"
      using False by simp
    then show ?thesis ..
  qed
qed

lemma strings_TrimRight_decomp:
  "\<exists>j. s = strings_TrimRight s [c] @ replicate j c"
proof -
  obtain j where "rev s = replicate j c @ dropWhile (\<lambda>x. x \<in> set [c]) (rev s)"
    using dropWhile_eq_replicate [of "rev s" c] by blast
  then have "rev (rev s) = rev (replicate j c @ dropWhile (\<lambda>x. x \<in> set [c]) (rev s))"
    by simp
  then have "s = strings_TrimRight s [c] @ replicate j c"
    by (simp add: strings_TrimRight_def)
  then show ?thesis ..
qed

lemma strings_TrimRight_last:
  "strings_TrimRight s [c] = [] \<or> last (strings_TrimRight s [c]) \<noteq> c"
proof (cases "dropWhile (\<lambda>x. x \<in> set [c]) (rev s)")
  case Nil
  then show ?thesis by (simp add: strings_TrimRight_def)
next
  case (Cons y ys)
  then have "hd (dropWhile (\<lambda>x. x \<in> set [c]) (rev s)) \<noteq> c"
    using hd_dropWhile [of "\<lambda>x. x \<in> set [c]" "rev s"] by simp
  then show ?thesis
    using Cons by (simp add: strings_TrimRight_def last_rev)
qed

lemma last_dropWhile_nonempty:
  "dropWhile P xs \<noteq> [] \<Longrightarrow> last (dropWhile P xs) = last xs"
  by (induction xs) (auto split: if_splits)

lemma strings_Trim_decomp:
  "\<exists>i j. s = replicate i c @ strings_Trim s [c] @ replicate j c"
proof -
  obtain j where j: "s = strings_TrimRight s [c] @ replicate j c"
    using strings_TrimRight_decomp by blast
  obtain i where i: "strings_TrimRight s [c] = replicate i c @ strings_Trim s [c]"
    using dropWhile_eq_replicate [of "strings_TrimRight s [c]" c]
    by (auto simp: strings_Trim_def strings_TrimLeft_def)
  have "s = replicate i c @ strings_Trim s [c] @ replicate j c"
    using i j by simp
  then show ?thesis by blast
qed

lemma strings_Trim_ends:
  "strings_Trim s [c] = [] \<or> (hd (strings_Trim s [c]) \<noteq> c \<and> last (strings_Trim s [c]) \<noteq> c)"
proof (cases "strings_Trim s [c] = []")
  case True
  then show ?thesis by simp
next
  case False
  let ?r = "strings_TrimRight s [c]"
  have ne: "dropWhile (\<lambda>x. x \<in> set [c]) ?r \<noteq> []"
    using False by (simp add: strings_Trim_def strings_TrimLeft_def)
  then have h: "hd (strings_Trim s [c]) \<noteq> c"
    using hd_dropWhile [of "\<lambda>x. x \<in> set [c]" ?r]
    by (simp add: strings_Trim_def strings_TrimLeft_def)
  have "?r \<noteq> []" using ne by auto
  then have "last ?r \<noteq> c" using strings_TrimRight_last [of s c] by simp
  moreover have "last (dropWhile (\<lambda>x. x \<in> set [c]) ?r) = last ?r"
    using ne by (rule last_dropWhile_nonempty)
  ultimately have "last (strings_Trim s [c]) \<noteq> c"
    by (simp add: strings_Trim_def strings_TrimLeft_def)
  with h show ?thesis by simp
qed

text \<open>
  C9. The key handed to the matcher is the request's host, one \<^verbatim>\<open>/\<close>, and the
  request's path without its leading and trailing \<^verbatim>\<open>/\<close> characters: the path is
  some slashes, the stripped part \<open>t\<close>, and some slashes, where \<open>t\<close> neither starts
  nor ends with a slash. The paths \<^verbatim>\<open>/a/b/\<close> and \<^verbatim>\<open>a/b\<close> on one host give one key.
\<close>

theorem C9_lookup_key:
  "(\<exists>i j t. req_Path r = replicate i (CHR ''/'') @ t @ replicate j (CHR ''/'')
        \<and> (t = [] \<or> (hd t \<noteq> CHR ''/'' \<and> last t \<noteq> CHR ''/''))
        \<and> requestToRoutePattern r = req_Host r @ ''/'' @ t)
   \<and> requestToRoutePattern (r\<lparr>req_Path := ''/a/b/''\<rparr>)
       = requestToRoutePattern (r\<lparr>req_Path := ''a/b''\<rparr>)
   \<and> requestToRoutePattern (r\<lparr>req_Path := ''/a/b/''\<rparr>) = req_Host r @ ''/a/b''"
proof -
  obtain i j where ij:
    "req_Path r = replicate i (CHR ''/'') @ strings_Trim (req_Path r) ''/''
        @ replicate j (CHR ''/'')"
    using strings_Trim_decomp [of "req_Path r" "CHR ''/''"] by blast
  have ends: "strings_Trim (req_Path r) ''/'' = []
      \<or> (hd (strings_Trim (req_Path r) ''/'') \<noteq> CHR ''/''
          \<and> last (strings_Trim (req_Path r) ''/'') \<noteq> CHR ''/'')"
    using strings_Trim_ends [of "req_Path r" "CHR ''/''"] by simp
  have key: "requestToRoutePattern r = req_Host r @ ''/'' @ strings_Trim (req_Path r) ''/''"
    by (simp add: requestToRoutePattern_def)
  have first: "\<exists>i j t. req_Path r = replicate i (CHR ''/'') @ t @ replicate j (CHR ''/'')
        \<and> (t = [] \<or> (hd t \<noteq> CHR ''/'' \<and> last t \<noteq> CHR ''/''))
        \<and> requestToRoutePattern r = req_Host r @ ''/'' @ t"
    using ij ends key by blast
  have a: "strings_Trim ''/a/b/'' ''/'' = ''a/b''"
    by (simp add: strings_Trim_def strings_TrimLeft_def strings_TrimRight_def)
  have b: "strings_Trim ''a/b'' ''/'' = ''a/b''"
    by (simp add: strings_Trim_def strings_TrimLeft_def strings_TrimRight_def)
  show ?thesis
    using first a b by (simp add: requestToRoutePattern_def)
qed

subsection \<open>Exit mirroring in wrap mode\<close>

text \<open>
  C5, as the code has it. A child that exited with status \<open>c\<close> (zero or not) makes the
  service call \<^verbatim>\<open>os.Exit(c)\<close>; a child that could not be started makes it call
  \<^verbatim>\<open>os.Exit(1)\<close>; a child that a signal terminated gives an \<^verbatim>\<open>*exec.ExitError\<close>
  whose \<^verbatim>\<open>ExitCode()\<close> is \<^verbatim>\<open>-1\<close>, and that is what \<^verbatim>\<open>os.Exit\<close> receives.
\<close>

theorem C5_exit_mirroring:
  "service_exit (Terminated (Exited c)) = c
   \<and> service_exit (StartFailed msg) = 1
   \<and> service_exit (Terminated (Signaled sig)) = - 1"
  by (simp add: service_exit_def wrap_exit_def)

text \<open>
  C5 as stated fails for a child without an exit status of its own that did start: a
  child terminated by signal 15 has no exit code, and the service does not exit with
  code 1.
\<close>

theorem C5_signal_counterexample:
  "no_exit_code (Terminated (Signaled 15))
   \<and> service_exit (Terminated (Signaled 15)) \<noteq> 1"
  by (simp add: service_exit_def wrap_exit_def)

subsection \<open>Route specs\<close>

lemma NewRoute_flags_ok:
  "list_all (\<lambda>p. \<not> isl (Atoi (strings_TrimPrefix p ''code='')))
       (filter (\<lambda>p. strings_HasPrefix p ''code='') flags)
   \<Longrightarrow> NewRoute_flags r flags =
       Inr (r\<lparr>CarryPath := CarryPath r \<or> ''path'' \<in> set flags,
              CarryQuery := CarryQuery r \<or> ''query'' \<in> set flags,
              Code := (case filter (\<lambda>p. strings_HasPrefix p ''code='') flags of
                         [] \<Rightarrow> Code r
                       | c # cs \<Rightarrow> projr (Atoi (strings_TrimPrefix (last (c # cs)) ''code='')))\<rparr>)"
proof (induction flags arbitrary: r)
  case Nil
  show ?case by simp
next
  case (Cons part parts)
  have np: "\<not> strings_HasPrefix ''path'' ''code=''" and nq: "\<not> strings_HasPrefix ''query'' ''code=''"
    by (simp_all add: strings_HasPrefix_def)
  consider (path) "part = ''path''" | (query) "part = ''query''"
    | (code) "part \<noteq> ''path''" "part \<noteq> ''query''" "strings_HasPrefix part ''code=''"
    | (other) "part \<noteq> ''path''" "part \<noteq> ''query''" "\<not> strings_HasPrefix part ''code=''"
    by blast
  then show ?case
  proof cases
    case path
    then show ?thesis using Cons np by (simp split: list.splits)
  next
    case query
    then show ?thesis using Cons nq by (simp split: list.splits)
  next
    case code
    from Cons.prems code obtain n where n: "Atoi (strings_TrimPrefix part ''code='') = Inr n"
      by (cases "Atoi (strings_TrimPrefix part ''code='')") auto
    have rest: "list_all (\<lambda>p. \<not> isl (Atoi (strings_TrimPrefix p ''code='')))
       (filter (\<lambda>p. strings_HasPrefix p ''code='') parts)"
      using Cons.prems code by simp
    show ?thesis
      using code n Cons.IH [OF rest, of "r\<lparr>Code := n\<rparr>"]
      by (cases "filter (\<lambda>p. strings_HasPrefix p ''code='') parts") simp_all
  next
    case other
    then show ?thesis using Cons by simp
  qed
qed

lemma NewRoute_flags_bad:
  "\<not> list_all (\<lambda>p. \<not> isl (Atoi (strings_TrimPrefix p ''code='')))
       (filter (\<lambda>p. strings_HasPrefix p ''code='') flags)
   \<Longrightarrow> \<exists>e. NewRoute_flags r flags = Inl (ParsingCode e)"
proof (induction flags arbitrary: r)
  case Nil
  then show ?case by simp
next
  case (Cons part parts)
  have np: "\<not> strings_HasPrefix ''path'' ''code=''" and nq: "\<not> strings_HasPrefix ''query'' ''code=''"
    by (simp_all add: strings_HasPrefix_def)
  show ?case
  proof (cases "strings_HasPrefix part ''code=''")
    case False
    then show ?thesis using Cons by simp
  next
    case True
    then have pq: "part \<noteq> ''path''" "part \<noteq> ''query''" using np nq by auto
    show ?thesis
    proof (cases "Atoi (strings_TrimPrefix part ''code='')")
      case (Inl e)
      then show ?thesis using True pq by simp
    next
      case (Inr n)
      then show ?thesis using True pq Cons by simp
    qed
  qed
qed

lemma NewRoute_parts:
  assumes "shellquote_Split s = Inr (pat # dest # flags)" and "url_Parse dest = Inr u"
  shows "NewRoute h s =
    (NewRoute_flags \<lparr>Pattern = pat, Destination = length h, Code = 302,
                      CarryPath = False, CarryQuery = False\<rparr> flags,
     h @ [(if Host (if Scheme u = '''' then u\<lparr>Scheme := ''https''\<rparr> else u) = ''''
           then (if Scheme u = '''' then u\<lparr>Scheme := ''https''\<rparr> else u)
                  \<lparr>Host := Path u, Path := ''''\<rparr>
           else (if Scheme u = '''' then u\<lparr>Scheme := ''https''\<rparr> else u))])"
  using assms by (simp add: NewRoute_def Let_def)

text \<open>
  C8. For a spec of at least two tokens whose destination parses: when every
  \<^verbatim>\<open>code=\<close> token carries a valid integer, parsing succeeds, carry_path is set exactly
  when the token \<^verbatim>\<open>path\<close> occurs among the flags, carry_query exactly when \<^verbatim>\<open>query\<close>
  occurs, and the status code is the integer of the last \<^verbatim>\<open>code=\<close> token, or 302 when
  there is none; no other token has any effect. When some \<^verbatim>\<open>code=\<close> token carries no
  valid integer, parsing fails with the error of parsing the code.
\<close>

theorem C8_flags:
  assumes "shellquote_Split s = Inr (pat # dest # flags)" and "url_Parse dest = Inr u"
  shows "if list_all (\<lambda>p. \<not> isl (Atoi (strings_TrimPrefix p ''code='')))
              (filter (\<lambda>p. strings_HasPrefix p ''code='') flags)
         then \<exists>r. fst (NewRoute h s) = Inr r \<and> Pattern r = pat
                \<and> CarryPath r = (''path'' \<in> set flags)
                \<and> CarryQuery r = (''query'' \<in> set flags)
                \<and> Code r = (case filter (\<lambda>p. strings_HasPrefix p ''code='') flags of
                              [] \<Rightarrow> 302
                            | c # cs \<Rightarrow> projr (Atoi (strings_TrimPrefix (last (c # cs)) ''code='')))
         else \<exists>e. fst (NewRoute h s) = Inl (ParsingCode e)"
proof (cases "list_all (\<lambda>p. \<not> isl (Atoi (strings_TrimPrefix p ''code='')))
              (filter (\<lambda>p. strings_HasPrefix p ''code='') flags)")
  case True
  show ?thesis
    using True NewRoute_parts [OF assms, of h]
      NewRoute_flags_ok [OF True, of "\<lparr>Pattern = pat, Destination = length h, Code = 302,
                      CarryPath = False, CarryQuery = False\<rparr>"]
    by (simp split: list.splits)
next
  case False
  show ?thesis
    using False NewRoute_parts [OF assms, of h]
      NewRoute_flags_bad [OF False, of "\<lparr>Pattern = pat, Destination = length h, Code = 302,
                      CarryPath = False, CarryQuery = False\<rparr>"]
    by simp
qed

lemma split_example_flags:
  "shellquote_Split ''a.com/* b.com query strict code=307 path code=308''
     = Inr [''a.com/*'', ''b.com'', ''query'', ''strict'', ''code=307'', ''path'', ''code=308'']"
  by (simp add: shellquote_Split_def split_chars)

lemma parse_b_com: "url_Parse ''b.com'' = Inr (new_URL\<lparr>Path := ''b.com''\<rparr>)"
  by (simp add: url_defs)

lemma Atoi_307: "Atoi ''307'' = Inr 307" and Atoi_308: "Atoi ''308'' = Inr 308"
  by (simp_all add: Atoi_def ParseUint_def isDigit_def digit_val_def)

theorem C8_flags_witness:
  "\<exists>r. fst (NewRoute [] ''a.com/* b.com query strict code=307 path code=308'') = Inr r
       \<and> Pattern r = ''a.com/*'' \<and> CarryPath r \<and> CarryQuery r \<and> Code r = 308"
  using C8_flags [OF split_example_flags parse_b_com, of "[]"]
  by (simp add: strings_HasPrefix_def strings_TrimPrefix_def Atoi_307 Atoi_308)

subsection \<open>The status code\<close>





lemma parse_example_com: "url_Parse ''example.com'' = Inr (new_URL\<lparr>Path := ''example.com''\<rparr>)"
  by (simp add: url_defs)



subsection \<open>The destination\<close>

text \<open>
  C4. For a spec whose destination token parses to the URL \<open>u\<close>, the destination the
  route holds has the scheme of \<open>u\<close>, or \<^verbatim>\<open>https\<close> when \<open>u\<close> has none; when the host of
  \<open>u\<close> is empty it has the path of \<open>u\<close> as host and an empty path, and otherwise host and
  path of \<open>u\<close>; the other fields are those of \<open>u\<close>. The destination \<^verbatim>\<open>example.com\<close>
  becomes \<^verbatim>\<open>https://example.com\<close>, and \<^verbatim>\<open>http://example.com\<close> stays as parsed.
\<close>

theorem C4_destination:
  "(\<forall>h s pat dest flags u r h'.
      shellquote_Split s = Inr (pat # dest # flags) \<and> url_Parse dest = Inr u
        \<and> NewRoute h s = (Inr r, h')
      \<longrightarrow> Scheme (h' ! Destination r) = (if Scheme u = '''' then ''https'' else Scheme u)
        \<and> Host (h' ! Destination r) = (if Host u = '''' then Path u else Host u)
        \<and> Path (h' ! Destination r) = (if Host u = '''' then '''' else Path u)
        \<and> h' ! Destination r = u\<lparr>Scheme := Scheme (h' ! Destination r),
                                   Host := Host (h' ! Destination r),
                                   Path := Path (h' ! Destination r)\<rparr>)
   \<and> (\<exists>r h'. NewRoute [] ''a.com/* example.com'' = (Inr r, h')
          \<and> URL_String (h' ! Destination r) = ''https://example.com'')
   \<and> (\<exists>r h'. NewRoute [] ''a.com/* http://example.com'' = (Inr r, h')
          \<and> url_Parse ''http://example.com'' = Inr (h' ! Destination r)
          \<and> URL_String (h' ! Destination r) = ''http://example.com'')"
proof (intro conjI allI impI)
  fix h s pat dest flags u r h'
  assume a: "shellquote_Split s = Inr (pat # dest # flags) \<and> url_Parse dest = Inr u
        \<and> NewRoute h s = (Inr r, h')"
  then have sp: "shellquote_Split s = Inr (pat # dest # flags)"
    and pa: "url_Parse dest = Inr u" and nr: "NewRoute h s = (Inr r, h')" by simp_all
  let ?r0 = "\<lparr>Pattern = pat, Destination = length h, Code = 302,
                      CarryPath = False, CarryQuery = False\<rparr>"
  have fl: "NewRoute_flags ?r0 flags = Inr r"
    using NewRoute_parts [OF sp pa, of h] nr by simp
  have dst: "\<And>r0 r. NewRoute_flags r0 flags = Inr r \<Longrightarrow> Destination r = Destination r0"
  proof (induction flags)
    case Nil
    then show ?case by simp
  next
    case (Cons part parts)
    then show ?case by (auto split: if_splits sum.splits)
  qed
  have d: "Destination r = length h" using dst [OF fl] by simp
  have h': "h' ! Destination r =
      (if Host (if Scheme u = '''' then u\<lparr>Scheme := ''https''\<rparr> else u) = ''''
           then (if Scheme u = '''' then u\<lparr>Scheme := ''https''\<rparr> else u)
                  \<lparr>Host := Path u, Path := ''''\<rparr>
           else (if Scheme u = '''' then u\<lparr>Scheme := ''https''\<rparr> else u))"
    using NewRoute_parts [OF sp pa, of h] nr d by auto
  show "Scheme (h' ! Destination r) = (if Scheme u = '''' then ''https'' else Scheme u)"
    by (simp add: h')
  show "Host (h' ! Destination r) = (if Host u = '''' then Path u else Host u)"
    by (simp add: h')
  show "Path (h' ! Destination r) = (if Host u = '''' then '''' else Path u)"
    by (simp add: h')
  show "h' ! Destination r = u\<lparr>Scheme := Scheme (h' ! Destination r),
                                   Host := Host (h' ! Destination r),
                                   Path := Path (h' ! Destination r)\<rparr>"
    by (simp add: h')
next
  have s: "shellquote_Split ''a.com/* example.com'' = Inr [''a.com/*'', ''example.com'']"
    by (simp add: shellquote_Split_def split_chars)
  have n: "NewRoute [] ''a.com/* example.com''
      = (Inr \<lparr>Pattern = ''a.com/*'', Destination = 0, Code = 302,
                      CarryPath = False, CarryQuery = False\<rparr>,
         [new_URL\<lparr>Scheme := ''https'', Host := ''example.com''\<rparr>])"
    using NewRoute_parts [OF s parse_example_com, of "[]"] by (simp add: new_URL_def)
  have "URL_String (new_URL\<lparr>Scheme := ''https'', Host := ''example.com''\<rparr>)
      = ''https://example.com''"
    by (simp add: url_defs)
  with n show "\<exists>r h'. NewRoute [] ''a.com/* example.com'' = (Inr r, h')
          \<and> URL_String (h' ! Destination r) = ''https://example.com''"
    by simp
next
  have s: "shellquote_Split ''a.com/* http://example.com''
      = Inr [''a.com/*'', ''http://example.com'']"
    by (simp add: shellquote_Split_def split_chars)
  have p: "url_Parse ''http://example.com''
      = Inr (new_URL\<lparr>Scheme := ''http'', Host := ''example.com''\<rparr>)"
    by (simp add: url_defs)
  have n: "NewRoute [] ''a.com/* http://example.com''
      = (Inr \<lparr>Pattern = ''a.com/*'', Destination = 0, Code = 302,
                      CarryPath = False, CarryQuery = False\<rparr>,
         [new_URL\<lparr>Scheme := ''http'', Host := ''example.com''\<rparr>])"
    using NewRoute_parts [OF s p, of "[]"] by (simp add: new_URL_def)
  have "URL_String (new_URL\<lparr>Scheme := ''http'', Host := ''example.com''\<rparr>)
      = ''http://example.com''"
    by (simp add: url_defs)
  with n p show "\<exists>r h'. NewRoute [] ''a.com/* http://example.com'' = (Inr r, h')
          \<and> url_Parse ''http://example.com'' = Inr (h' ! Destination r)
          \<and> URL_String (h' ! Destination r) = ''http://example.com''"
    by simp
qed

lemma split_example_blog:
  "shellquote_Split ''blog.example.com/* example.com/blog path''
     = Inr [''blog.example.com/*'', ''example.com/blog'', ''path'']"
  by (simp add: shellquote_Split_def split_chars)

lemma parse_example_blog:
  "url_Parse ''example.com/blog'' = Inr (new_URL\<lparr>Path := ''example.com/blog''\<rparr>)"
  by (simp add: url_defs)

lemma NewRoute_example_blog:
  "NewRoute [] ''blog.example.com/* example.com/blog path''
     = (Inr \<lparr>Pattern = ''blog.example.com/*'', Destination = 0, Code = 302,
              CarryPath = True, CarryQuery = False\<rparr>,
        [new_URL\<lparr>Scheme := ''https'', Host := ''example.com/blog''\<rparr>])"
  using NewRoute_parts [OF split_example_blog parse_example_blog, of "[]"]
  by (simp add: new_URL_def)

theorem C4_destination_witness:
  "Scheme ([new_URL\<lparr>Scheme := ''https'', Host := ''example.com/blog''\<rparr>] ! 0) = ''https''
   \<and> Host ([new_URL\<lparr>Scheme := ''https'', Host := ''example.com/blog''\<rparr>] ! 0)
       = ''example.com/blog''
   \<and> Path ([new_URL\<lparr>Scheme := ''https'', Host := ''example.com/blog''\<rparr>] ! 0) = ''''"
proof -
  have "shellquote_Split ''blog.example.com/* example.com/blog path''
          = Inr (''blog.example.com/*'' # ''example.com/blog'' # [''path''])
        \<and> url_Parse ''example.com/blog'' = Inr (new_URL\<lparr>Path := ''example.com/blog''\<rparr>)
        \<and> NewRoute [] ''blog.example.com/* example.com/blog path''
            = (Inr \<lparr>Pattern = ''blog.example.com/*'', Destination = 0, Code = 302,
              CarryPath = True, CarryQuery = False\<rparr>,
               [new_URL\<lparr>Scheme := ''https'', Host := ''example.com/blog''\<rparr>])"
    using split_example_blog parse_example_blog NewRoute_example_blog by simp
  then show ?thesis
    using C4_destination by (simp add: new_URL_def)
qed

subsection \<open>Serving a configured route\<close>







end
